theory Spec2Isabelle
  imports Complex_Main
begin

section \<open>JavaScript numbers\<close>

text \<open>
  The TypeScript type \<open>number\<close> is modelled in exact arithmetic: a finite value is a
  real number (no rounding, no overflow), and the three special values that division by
  zero and invalid operations produce are kept, with the IEEE 754 rules for them.
  Zero is unsigned: a zero divisor is taken as \<open>+0\<close>, which is what \<open>Math.sqrt\<close> and
  every literal of the source produce.
\<close>

datatype number = Fin real | PInf | NInf | NaN

instantiation number :: "{uminus, plus, minus, times, inverse, ord}"
begin

fun uminus_number :: "number \<Rightarrow> number" where
  "- (Fin a) = Fin (- a)"
| "- PInf = NInf"
| "- NInf = PInf"
| "- NaN = NaN"

fun plus_number :: "number \<Rightarrow> number \<Rightarrow> number" where
  "Fin a + Fin b = Fin (a + b)"
| "NaN + _ = NaN"
| "_ + NaN = NaN"
| "PInf + NInf = NaN"
| "NInf + PInf = NaN"
| "PInf + _ = PInf"
| "_ + PInf = PInf"
| "NInf + _ = NInf"
| "_ + NInf = NInf"

definition minus_number :: "number \<Rightarrow> number \<Rightarrow> number" where
  "minus_number a b = a + (- b)"

fun times_number :: "number \<Rightarrow> number \<Rightarrow> number" where
  "Fin a * Fin b = Fin (a * b)"
| "NaN * _ = NaN"
| "_ * NaN = NaN"
| "PInf * Fin b = (if b = 0 then NaN else if 0 < b then PInf else NInf)"
| "NInf * Fin b = (if b = 0 then NaN else if 0 < b then NInf else PInf)"
| "Fin a * PInf = (if a = 0 then NaN else if 0 < a then PInf else NInf)"
| "Fin a * NInf = (if a = 0 then NaN else if 0 < a then NInf else PInf)"
| "PInf * PInf = PInf"
| "PInf * NInf = NInf"
| "NInf * PInf = NInf"
| "NInf * NInf = PInf"

fun divide_number :: "number \<Rightarrow> number \<Rightarrow> number" where
  "divide_number (Fin a) (Fin b) =
     (if b \<noteq> 0 then Fin (a / b)
      else if a = 0 then NaN
      else if 0 < a then PInf else NInf)"
| "divide_number NaN _ = NaN"
| "divide_number _ NaN = NaN"
| "divide_number (Fin a) PInf = Fin 0"
| "divide_number (Fin a) NInf = Fin 0"
| "divide_number PInf (Fin b) = (if 0 \<le> b then PInf else NInf)"
| "divide_number NInf (Fin b) = (if 0 \<le> b then NInf else PInf)"
| "divide_number PInf PInf = NaN"
| "divide_number PInf NInf = NaN"
| "divide_number NInf PInf = NaN"
| "divide_number NInf NInf = NaN"

definition inverse_number :: "number \<Rightarrow> number" where
  "inverse_number a = divide (Fin 1) a"

fun less_number :: "number \<Rightarrow> number \<Rightarrow> bool" where
  "Fin a < Fin b = (a < b)"
| "NaN < _ = False"
| "_ < NaN = False"
| "_ < NInf = False"
| "PInf < _ = False"
| "NInf < _ = True"
| "_ < PInf = True"

fun less_eq_number :: "number \<Rightarrow> number \<Rightarrow> bool" where
  "Fin a \<le> Fin b = (a \<le> b)"
| "NaN \<le> _ = False"
| "_ \<le> NaN = False"
| "NInf \<le> _ = True"
| "_ \<le> PInf = True"
| "_ \<le> NInf = False"
| "PInf \<le> _ = False"

instance ..

end

text \<open>Truthiness of a number (\<open>if (v)\<close>, \<open>v || 0\<close>): false for zero and for NaN.\<close>

definition truthy :: "number \<Rightarrow> bool" where
  "truthy v = (v \<noteq> NaN \<and> v \<noteq> Fin 0)"

text \<open>\<open>v || 0\<close>.\<close>

definition or_zero :: "number \<Rightarrow> number" where
  "or_zero v = (if truthy v then v else Fin 0)"

text \<open>\<open>a !== b\<close> on numbers: NaN is different from everything, itself included.\<close>

definition strict_neq :: "number \<Rightarrow> number \<Rightarrow> bool" where
  "strict_neq a b = (a = NaN \<or> b = NaN \<or> a \<noteq> b)"

subsection \<open>The functions of \<open>Math\<close> that the source calls\<close>

fun Math_sqrt :: "number \<Rightarrow> number" where
  "Math_sqrt (Fin a) = (if a < 0 then NaN else Fin (sqrt a))"
| "Math_sqrt PInf = PInf"
| "Math_sqrt NInf = NaN"
| "Math_sqrt NaN = NaN"

fun Math_abs :: "number \<Rightarrow> number" where
  "Math_abs (Fin a) = Fin \<bar>a\<bar>"
| "Math_abs PInf = PInf"
| "Math_abs NInf = PInf"
| "Math_abs NaN = NaN"

fun Math_sin :: "number \<Rightarrow> number" where
  "Math_sin (Fin a) = Fin (sin a)"
| "Math_sin _ = NaN"

fun Math_cos :: "number \<Rightarrow> number" where
  "Math_cos (Fin a) = Fin (cos a)"
| "Math_cos _ = NaN"

text \<open>
  \<open>Math.tan\<close> is finite at every finite argument (no floating-point number is an odd
  multiple of \<open>\<pi>/2\<close>). At the poles of the exact tangent the model takes the value of
  HOL's \<open>tan\<close> there.
\<close>

fun Math_tan :: "number \<Rightarrow> number" where
  "Math_tan (Fin a) = Fin (tan a)"
| "Math_tan _ = NaN"

text \<open>\<open>Math.pow(x, n)\<close> for the natural exponents the source uses.\<close>

fun Math_pow :: "number \<Rightarrow> nat \<Rightarrow> number" where
  "Math_pow v 0 = Fin 1"
| "Math_pow v (Suc n) = v * Math_pow v n"

text \<open>The two-argument arctangent on the reals, with values in \<open>(-\<pi>, \<pi>]\<close>.\<close>

definition atan2 :: "real \<Rightarrow> real \<Rightarrow> real" where
  "atan2 b a =
     (if 0 < a then arctan (b / a)
      else if a < 0 then (if 0 \<le> b then arctan (b / a) + pi else arctan (b / a) - pi)
      else if 0 < b then pi / 2
      else if b < 0 then - (pi / 2)
      else 0)"

fun Math_atan2 :: "number \<Rightarrow> number \<Rightarrow> number" where
  "Math_atan2 (Fin b) (Fin a) = Fin (atan2 b a)"
| "Math_atan2 NaN _ = NaN"
| "Math_atan2 _ NaN = NaN"
| "Math_atan2 (Fin b) PInf = Fin 0"
| "Math_atan2 (Fin b) NInf = (if 0 \<le> b then Fin pi else Fin (- pi))"
| "Math_atan2 PInf (Fin a) = Fin (pi / 2)"
| "Math_atan2 NInf (Fin a) = Fin (- (pi / 2))"
| "Math_atan2 PInf PInf = Fin (pi / 4)"
| "Math_atan2 PInf NInf = Fin (3 * pi / 4)"
| "Math_atan2 NInf PInf = Fin (- (pi / 4))"
| "Math_atan2 NInf NInf = Fin (- (3 * pi / 4))"

section \<open>\<open>geom/Matrix2X3.ts\<close>\<close>

subsection \<open>Data\<close>

text \<open>The tuple \<open>[m11, m12, m21, m22, dx, dy]\<close>; \<open>a[0]\<close> is \<open>m11 a\<close>, ..., \<open>a[5]\<close> is \<open>dy a\<close>.\<close>

record Matrix2X3Array =
  m11 :: number
  m12 :: number
  m21 :: number
  m22 :: number
  dx :: number
  dy :: number

record TRANSFORM_OPTION =
  angle :: number
  scaleX :: number
  scaleY :: number
  skewX :: number
  skewY :: number
  translateX :: number
  translateY :: number
  flipX :: bool
  flipY :: bool

text \<open>
  Modelled from the spec: the class \<open>Point2D\<close> of \<open>geom/Point2D.ts\<close>, which this
  module imports, is a pair of numbers \<open>(x, y)\<close>; \<open>new Point2D(a, b)\<close> is the record
  with \<open>p_x = a\<close> and \<open>p_y = b\<close>.
\<close>

record Point2D =
  p_x :: number
  p_y :: number

subsection \<open>Operations\<close>

definition getIdentityMatrix2X3 :: Matrix2X3Array where
  "getIdentityMatrix2X3 =
     \<lparr>m11 = Fin 1, m12 = Fin 0, m21 = Fin 0, m22 = Fin 1, dx = Fin 0, dy = Fin 0\<rparr>"

definition multiplyMatrix2X3 :: "Matrix2X3Array \<Rightarrow> Matrix2X3Array \<Rightarrow> Matrix2X3Array" where
  "multiplyMatrix2X3 a b =
     \<lparr>m11 = m11 a * m11 b + m21 a * m12 b,
      m12 = m12 a * m11 b + m22 a * m12 b,
      m21 = m11 a * m21 b + m21 a * m22 b,
      m22 = m12 a * m21 b + m22 a * m22 b,
      dx = m11 a * dx b + m21 a * dy b + dx a,
      dy = m12 a * dx b + m22 a * dy b + dy a\<rparr>"

definition transformPoint2D :: "Point2D \<Rightarrow> Matrix2X3Array \<Rightarrow> bool \<Rightarrow> Point2D" where
  "transformPoint2D p t ignoreOffset =
     (if ignoreOffset
      then \<lparr>p_x = m11 t * p_x p + m21 t * p_y p,
            p_y = m12 t * p_x p + m22 t * p_y p\<rparr>
      else \<lparr>p_x = m11 t * p_x p + m21 t * p_y p + dx t,
            p_y = m12 t * p_x p + m22 t * p_y p + dy t\<rparr>)"

definition invertMatrix2X3 :: "Matrix2X3Array \<Rightarrow> Matrix2X3Array" where
  "invertMatrix2X3 t =
     (let a = Fin 1 / (m11 t * m22 t - m12 t * m21 t);
          r = \<lparr>m11 = a * m22 t, m12 = - a * m12 t, m21 = - a * m21 t, m22 = a * m11 t,
               dx = Fin 0, dy = Fin 0\<rparr>;
          o' = transformPoint2D \<lparr>p_x = dx t, p_y = dy t\<rparr> r True
      in r\<lparr>dx := - p_x o', dy := - p_y o'\<rparr>)"

definition calcRotateMatrix2X3 :: "TRANSFORM_OPTION \<Rightarrow> Matrix2X3Array" where
  "calcRotateMatrix2X3 options =
     (if \<not> truthy (angle options) then getIdentityMatrix2X3
      else let c = Math_cos (angle options); s = Math_sin (angle options)
           in \<lparr>m11 = c, m12 = s, m21 = - s, m22 = c, dx = Fin 0, dy = Fin 0\<rparr>)"

text \<open>
  \<open>options.scaleX\<close> and \<open>options.scaleY\<close> have type \<open>number\<close>, so the two
  \<open>typeof ... === 'undefined'\<close> tests of the source are false and \<open>scaleX\<close>,
  \<open>scaleY\<close> are the fields themselves.
\<close>

definition calcDimensionsMatrix2X3 :: "TRANSFORM_OPTION \<Rightarrow> Matrix2X3Array" where
  "calcDimensionsMatrix2X3 options =
     (let sx = scaleX options;
          sy = scaleY options;
          scaleMatrix = \<lparr>m11 = (if flipX options then - sx else sx), m12 = Fin 0,
                         m21 = Fin 0, m22 = (if flipY options then - sy else sy),
                         dx = Fin 0, dy = Fin 0\<rparr>;
          scaleMatrix =
            (if truthy (skewX options)
             then multiplyMatrix2X3 scaleMatrix
                    \<lparr>m11 = Fin 1, m12 = Fin 0, m21 = Math_tan (skewX options), m22 = Fin 1,
                     dx = Fin 0, dy = Fin 0\<rparr>
             else scaleMatrix);
          scaleMatrix =
            (if truthy (skewY options)
             then multiplyMatrix2X3 scaleMatrix
                    \<lparr>m11 = Fin 1, m12 = Math_tan (skewY options), m21 = Fin 0, m22 = Fin 1,
                     dx = Fin 0, dy = Fin 0\<rparr>
             else scaleMatrix)
      in scaleMatrix)"

definition composeMatrix2X3 :: "TRANSFORM_OPTION \<Rightarrow> Matrix2X3Array" where
  "composeMatrix2X3 options =
     (let matrix = \<lparr>m11 = Fin 1, m12 = Fin 0, m21 = Fin 0, m22 = Fin 1,
                    dx = or_zero (translateX options), dy = or_zero (translateY options)\<rparr>;
          matrix =
            (if truthy (angle options)
             then multiplyMatrix2X3 matrix (calcRotateMatrix2X3 options)
             else matrix);
          matrix =
            (if strict_neq (scaleX options) (Fin 1) \<or> strict_neq (scaleY options) (Fin 1) \<or>
                truthy (skewX options) \<or> truthy (skewY options) \<or>
                flipX options \<or> flipY options
             then multiplyMatrix2X3 matrix (calcDimensionsMatrix2X3 options)
             else matrix)
      in matrix)"

definition decomposeMatrix2X3 :: "Matrix2X3Array \<Rightarrow> TRANSFORM_OPTION" where
  "decomposeMatrix2X3 a =
     (let ang = Math_atan2 (m12 a) (m11 a);
          sx = m12 a / Math_sin ang;
          sy = (m11 a * m22 a - m21 a * m12 a) / sx;
          kx = Math_atan2 (m11 a * m21 a + m12 a * m22 a)
                 (Math_pow (m11 a) 2 + Math_pow (m12 a) 2)
      in \<lparr>angle = ang,
          scaleX = Math_abs sx,
          scaleY = Math_abs sy,
          skewX = kx,
          skewY = Fin 0,
          translateX = dx a,
          translateY = dy a,
          flipX = (if Fin 0 < sx then False else True),
          flipY = (if Fin 0 < sy then False else True)\<rparr>)"

subsection \<open>The two unconditional paths of \<open>composeMatrix2X3\<close>\<close>

text \<open>
  \<open>composeMatrix2X3\<close> with its first guard removed: the rotation matrix is always
  multiplied in. The rest is the source's.
\<close>

definition composeMatrix2X3_always_rotate :: "TRANSFORM_OPTION \<Rightarrow> Matrix2X3Array" where
  "composeMatrix2X3_always_rotate options =
     (let matrix = \<lparr>m11 = Fin 1, m12 = Fin 0, m21 = Fin 0, m22 = Fin 1,
                    dx = or_zero (translateX options), dy = or_zero (translateY options)\<rparr>;
          matrix = multiplyMatrix2X3 matrix (calcRotateMatrix2X3 options);
          matrix =
            (if strict_neq (scaleX options) (Fin 1) \<or> strict_neq (scaleY options) (Fin 1) \<or>
                truthy (skewX options) \<or> truthy (skewY options) \<or>
                flipX options \<or> flipY options
             then multiplyMatrix2X3 matrix (calcDimensionsMatrix2X3 options)
             else matrix)
      in matrix)"

text \<open>
  \<open>composeMatrix2X3\<close> with its second guard removed: the dimensions matrix is always
  multiplied in.
\<close>

definition composeMatrix2X3_always_dimensions :: "TRANSFORM_OPTION \<Rightarrow> Matrix2X3Array" where
  "composeMatrix2X3_always_dimensions options =
     (let matrix = \<lparr>m11 = Fin 1, m12 = Fin 0, m21 = Fin 0, m22 = Fin 1,
                    dx = or_zero (translateX options), dy = or_zero (translateY options)\<rparr>;
          matrix =
            (if truthy (angle options)
             then multiplyMatrix2X3 matrix (calcRotateMatrix2X3 options)
             else matrix);
          matrix = multiplyMatrix2X3 matrix (calcDimensionsMatrix2X3 options)
      in matrix)"

subsection \<open>Finite values\<close>

text \<open>A matrix, a point and a transform record whose numbers are the given reals.\<close>

definition matrix_of ::
  "real \<Rightarrow> real \<Rightarrow> real \<Rightarrow> real \<Rightarrow> real \<Rightarrow> real \<Rightarrow> Matrix2X3Array" where
  "matrix_of a0 a1 a2 a3 a4 a5 =
     \<lparr>m11 = Fin a0, m12 = Fin a1, m21 = Fin a2, m22 = Fin a3, dx = Fin a4, dy = Fin a5\<rparr>"

definition point_of :: "real \<Rightarrow> real \<Rightarrow> Point2D" where
  "point_of a b = \<lparr>p_x = Fin a, p_y = Fin b\<rparr>"

definition option_of ::
  "real \<Rightarrow> real \<Rightarrow> real \<Rightarrow> real \<Rightarrow> real \<Rightarrow> real \<Rightarrow> real \<Rightarrow> bool \<Rightarrow> bool \<Rightarrow> TRANSFORM_OPTION" where
  "option_of th sx sy kx ky tx ty fx fy =
     \<lparr>angle = Fin th, scaleX = Fin sx, scaleY = Fin sy, skewX = Fin kx, skewY = Fin ky,
      translateX = Fin tx, translateY = Fin ty, flipX = fx, flipY = fy\<rparr>"

section \<open>The circle separation of \<open>collide\<close>\<close>

subsection \<open>Nodes, quads and the store\<close>

text \<open>
  A \<open>CircleNode\<close> is a mutable object; the closure compares nodes by identity and
  writes to their fields. Nodes live in a store, a reference is an address of it, and
  \<open>quad.point\<close> is a reference or is absent (\<open>None\<close>, a falsy \<open>quad.point\<close>).
  The fields \<open>x\<close> and \<open>y\<close> of the source are \<open>c_x\<close> and \<open>c_y\<close>.
\<close>

record CircleNode =
  c_x :: number
  c_y :: number
  radius :: number

type_synonym ref = nat

type_synonym store = "ref \<Rightarrow> CircleNode"

record Quad =
  point :: "ref option"

text \<open>
  What the function returned by \<open>collide(node)\<close> captures: the reference \<open>node\<close> and
  the four bounds computed when \<open>collide\<close> ran.
\<close>

record closure =
  cl_node :: ref
  nx1 :: number
  nx2 :: number
  ny1 :: number
  ny2 :: number

subsection \<open>\<open>collide\<close> and the function it returns\<close>

definition collide :: "store \<Rightarrow> ref \<Rightarrow> closure" where
  "collide h node =
     (let r = radius (h node) + Fin 16
      in \<lparr>cl_node = node,
          nx1 = c_x (h node) - r,
          nx2 = c_x (h node) + r,
          ny1 = c_y (h node) - r,
          ny2 = c_y (h node) + r\<rparr>)"

text \<open>
  A call of the returned function on the store \<open>h\<close>: the prune decision and the
  store after the call. The overlap branch performs the source's four assignments in
  order: \<open>node.x -= x *= l; node.y -= y *= l; quad.point.x += x; quad.point.y += y\<close>.
\<close>

definition call ::
  "closure \<Rightarrow> Quad \<Rightarrow> number \<Rightarrow> number \<Rightarrow> number \<Rightarrow> number \<Rightarrow> store \<Rightarrow> bool \<times> store" where
  "call c quad x1 y1 x2 y2 h =
     (let node = cl_node c;
          h = (case point quad of
                 None \<Rightarrow> h
               | Some other \<Rightarrow>
                   if other \<noteq> node
                   then (let x = c_x (h node) - c_x (h other);
                             y = c_y (h node) - c_y (h other);
                             l = Math_sqrt (x * x + y * y);
                             r = radius (h node) + radius (h other)
                         in if l < r
                            then (let l = (l - r) / l * Fin 0.5;
                                      x = x * l;
                                      h = h(node := (h node)\<lparr>c_x := c_x (h node) - x\<rparr>);
                                      y = y * l;
                                      h = h(node := (h node)\<lparr>c_y := c_y (h node) - y\<rparr>);
                                      h = h(other := (h other)\<lparr>c_x := c_x (h other) + x\<rparr>);
                                      h = h(other := (h other)\<lparr>c_y := c_y (h other) + y\<rparr>)
                                  in h)
                            else h)
                   else h)
      in (x1 > nx2 c \<or> x2 < nx1 c \<or> y1 > ny2 c \<or> y2 < ny1 c, h))"

subsection \<open>Geometry of the prune decision\<close>

text \<open>The closed axis-parallel region with lower corner \<open>(x1, y1)\<close> and upper corner \<open>(x2, y2)\<close>.\<close>

definition region :: "real \<Rightarrow> real \<Rightarrow> real \<Rightarrow> real \<Rightarrow> (real \<times> real) set" where
  "region x1 y1 x2 y2 = {x1..x2} \<times> {y1..y2}"

text \<open>A node with finite fields, and the distance of two centres.\<close>

definition node_of :: "real \<Rightarrow> real \<Rightarrow> real \<Rightarrow> CircleNode" where
  "node_of a b rad = \<lparr>c_x = Fin a, c_y = Fin b, radius = Fin rad\<rparr>"

definition dist2 :: "real \<Rightarrow> real \<Rightarrow> real \<Rightarrow> real \<Rightarrow> real" where
  "dist2 ax ay ox oy = sqrt ((ax - ox) * (ax - ox) + (ay - oy) * (ay - oy))"

text \<open>
  A store whose node at reference \<open>0\<close> is \<open>a\<close> and whose every other node is \<open>b\<close>.
\<close>

definition two_nodes :: "CircleNode \<Rightarrow> CircleNode \<Rightarrow> store" where
  "two_nodes a b = (\<lambda>r. if r = 0 then a else b)"

subsection \<open>Integer multiples of \<open>\<pi>\<close>\<close>

definition multiple_of_pi :: "real \<Rightarrow> bool" where
  "multiple_of_pi th = (\<exists>k::int. th = of_int k * pi)"

section \<open>Arithmetic on finite numbers\<close>

lemma minus_Fin [simp]: "Fin a - Fin b = Fin (a - b)"
  by (simp add: minus_number_def)

lemma multiple_of_pi_iff: "multiple_of_pi th = (sin th = 0)"
  by (simp add: multiple_of_pi_def sin_zero_iff_int2)

section \<open>Matrix product and point application\<close>

text \<open>
  Claim C6. For all matrices \<open>a\<close>, \<open>b\<close> and every point \<open>p\<close> (of real numbers),
  \<open>transformPoint2D(p, multiplyMatrix2X3(a, b))\<close> equals
  \<open>transformPoint2D(transformPoint2D(p, b), a)\<close>: applying the product is applying
  \<open>b\<close> first and then \<open>a\<close>.
\<close>

theorem multiply_applies_b_then_a:
  "transformPoint2D (point_of px py)
     (multiplyMatrix2X3 (matrix_of a0 a1 a2 a3 a4 a5) (matrix_of b0 b1 b2 b3 b4 b5)) False
   = transformPoint2D
       (transformPoint2D (point_of px py) (matrix_of b0 b1 b2 b3 b4 b5) False)
       (matrix_of a0 a1 a2 a3 a4 a5) False"
  by (simp add: transformPoint2D_def multiplyMatrix2X3_def matrix_of_def point_of_def
      algebra_simps)

text \<open>
  Claim C7. \<open>multiplyMatrix2X3\<close> is associative on matrices of real numbers, the
  identity matrix \<open>(1,0,0,1,0,0)\<close> is a two-sided identity, and the product is not
  commutative: the translation by \<open>(1, 0)\<close> and the scaling of \<open>x\<close> by \<open>2\<close> do not commute.
\<close>

theorem multiply_assoc_identity_not_commutative:
  "multiplyMatrix2X3
     (multiplyMatrix2X3 (matrix_of a0 a1 a2 a3 a4 a5) (matrix_of b0 b1 b2 b3 b4 b5))
     (matrix_of c0 c1 c2 c3 c4 c5)
   = multiplyMatrix2X3 (matrix_of a0 a1 a2 a3 a4 a5)
       (multiplyMatrix2X3 (matrix_of b0 b1 b2 b3 b4 b5) (matrix_of c0 c1 c2 c3 c4 c5))
   \<and> multiplyMatrix2X3 (matrix_of a0 a1 a2 a3 a4 a5) getIdentityMatrix2X3
       = matrix_of a0 a1 a2 a3 a4 a5
   \<and> multiplyMatrix2X3 getIdentityMatrix2X3 (matrix_of a0 a1 a2 a3 a4 a5)
       = matrix_of a0 a1 a2 a3 a4 a5
   \<and> getIdentityMatrix2X3 = matrix_of 1 0 0 1 0 0
   \<and> multiplyMatrix2X3 (matrix_of 1 0 0 1 1 0) (matrix_of 2 0 0 1 0 0)
       \<noteq> multiplyMatrix2X3 (matrix_of 2 0 0 1 0 0) (matrix_of 1 0 0 1 1 0)"
  by (simp add: multiplyMatrix2X3_def matrix_of_def getIdentityMatrix2X3_def algebra_simps)

section \<open>Inversion\<close>

text \<open>The inverse of a matrix of real numbers with determinant \<open>d \<noteq> 0\<close>, entry by entry.\<close>

lemma invert_finite:
  assumes d: "d = a0 * a3 - a1 * a2" and nz: "d \<noteq> 0"
  shows "invertMatrix2X3 (matrix_of a0 a1 a2 a3 a4 a5) =
    matrix_of (a3 / d) (- (a1 / d)) (- (a2 / d)) (a0 / d)
              ((a2 * a5 - a3 * a4) / d) ((a1 * a4 - a0 * a5) / d)"
proof -
  let ?t = "matrix_of a0 a1 a2 a3 a4 a5"
  have det: "m11 ?t * m22 ?t - m12 ?t * m21 ?t = Fin d"
    by (simp add: matrix_of_def d)
  have inv: "Fin 1 / Fin d = Fin (1 / d)"
    using nz by simp
  have x: "- (1 / d * a3 * a4 + - (1 / d) * a2 * a5) = (a2 * a5 - a3 * a4) / d"
    using nz by (simp add: field_simps)
  have y: "- (- (1 / d) * a1 * a4 + 1 / d * a0 * a5) = (a1 * a4 - a0 * a5) / d"
    using nz by (simp add: field_simps)
  show ?thesis
    unfolding invertMatrix2X3_def Let_def det inv
    using x y by (simp add: matrix_of_def transformPoint2D_def)
qed

text \<open>
  Claim C5. For every matrix \<open>m\<close> of real numbers with \<open>m11*m22 - m12*m21 \<noteq> 0\<close>,
  \<open>invertMatrix2X3(invertMatrix2X3(m))\<close> is \<open>m\<close>, and for every point \<open>p\<close>,
  \<open>transformPoint2D(transformPoint2D(p, m), invertMatrix2X3(m))\<close> is \<open>p\<close>
  (equalities of exact arithmetic).
\<close>

theorem invert_involutive_and_undoes:
  assumes nz: "a0 * a3 - a1 * a2 \<noteq> 0"
  shows "invertMatrix2X3 (invertMatrix2X3 (matrix_of a0 a1 a2 a3 a4 a5))
           = matrix_of a0 a1 a2 a3 a4 a5
   \<and> transformPoint2D
        (transformPoint2D (point_of px py) (matrix_of a0 a1 a2 a3 a4 a5) False)
        (invertMatrix2X3 (matrix_of a0 a1 a2 a3 a4 a5)) False
       = point_of px py"
proof -
  define d where "d = a0 * a3 - a1 * a2"
  have nz': "d \<noteq> 0" using nz by (simp add: d_def)
  note i1 = invert_finite [OF d_def nz', of a4 a5]
  have d2: "1 / d = a3 / d * (a0 / d) - - (a1 / d) * - (a2 / d)"
    using nz' by (simp add: field_simps) (simp add: d_def algebra_simps)
  have nz2: "1 / d \<noteq> 0" using nz' by simp
  note i2 = invert_finite [OF d2 nz2, of "(a2 * a5 - a3 * a4) / d" "(a1 * a4 - a0 * a5) / d"]
  have e4: "(- (a2 / d) * ((a1 * a4 - a0 * a5) / d) - a0 / d * ((a2 * a5 - a3 * a4) / d))
              / (1 / d) = a4"
    using nz' by (simp add: field_simps) (simp add: d_def algebra_simps)
  have e5: "(- (a1 / d) * ((a2 * a5 - a3 * a4) / d) - a3 / d * ((a1 * a4 - a0 * a5) / d))
              / (1 / d) = a5"
    using nz' by (simp add: field_simps) (simp add: d_def algebra_simps)
  have twice: "invertMatrix2X3 (invertMatrix2X3 (matrix_of a0 a1 a2 a3 a4 a5))
      = matrix_of a0 a1 a2 a3 a4 a5"
    unfolding i1 i2 using nz' e4 e5 by (simp add: matrix_of_def)
  have qx: "a3 / d * (a0 * px + a2 * py + a4) + - (a2 / d) * (a1 * px + a3 * py + a5)
              + (a2 * a5 - a3 * a4) / d = px"
    using nz' by (simp add: field_simps) (simp add: d_def algebra_simps)
  have qy: "- (a1 / d) * (a0 * px + a2 * py + a4) + a0 / d * (a1 * px + a3 * py + a5)
              + (a1 * a4 - a0 * a5) / d = py"
    using nz' by (simp add: field_simps) (simp add: d_def algebra_simps)
  have undo: "transformPoint2D
        (transformPoint2D (point_of px py) (matrix_of a0 a1 a2 a3 a4 a5) False)
        (invertMatrix2X3 (matrix_of a0 a1 a2 a3 a4 a5)) False = point_of px py"
    unfolding i1 using qx qy by (simp add: transformPoint2D_def matrix_of_def point_of_def)
  show ?thesis using twice undo by simp
qed

text \<open>
  The claim at the matrix \<open>(2, 1, 1, 1, 5, 7)\<close>, of determinant \<open>1\<close>, and the point
  \<open>(3, 4)\<close>.
\<close>

theorem invert_involutive_and_undoes_witness:
  "(2::real) * 1 - 1 * 1 \<noteq> 0
   \<and> invertMatrix2X3 (invertMatrix2X3 (matrix_of 2 1 1 1 5 7)) = matrix_of 2 1 1 1 5 7
   \<and> transformPoint2D (transformPoint2D (point_of 3 4) (matrix_of 2 1 1 1 5 7) False)
        (invertMatrix2X3 (matrix_of 2 1 1 1 5 7)) False = point_of 3 4"
  using invert_involutive_and_undoes [of 2 1 1 1 5 7 3 4] by simp

section \<open>The guards of \<open>composeMatrix2X3\<close>\<close>

text \<open>
  Claim C8. The two guards of \<open>composeMatrix2X3\<close> change no result: for every input with
  \<open>angle == 0\<close> the matrix is the one obtained by always multiplying the rotation matrix
  in, and for every input with \<open>scaleX == 1\<close>, \<open>scaleY == 1\<close>, \<open>skewX == 0\<close>,
  \<open>skewY == 0\<close>, \<open>flipX == false\<close> and \<open>flipY == false\<close> (and a finite angle) it is
  the one obtained by always multiplying the dimensions matrix in.
\<close>

theorem compose_guards_are_optimisations:
  "composeMatrix2X3 (opt\<lparr>angle := Fin 0\<rparr>)
     = composeMatrix2X3_always_rotate (opt\<lparr>angle := Fin 0\<rparr>)
   \<and> composeMatrix2X3
       \<lparr>angle = Fin th, scaleX = Fin 1, scaleY = Fin 1, skewX = Fin 0, skewY = Fin 0,
        translateX = tx, translateY = ty, flipX = False, flipY = False\<rparr>
     = composeMatrix2X3_always_dimensions
       \<lparr>angle = Fin th, scaleX = Fin 1, scaleY = Fin 1, skewX = Fin 0, skewY = Fin 0,
        translateX = tx, translateY = ty, flipX = False, flipY = False\<rparr>"
proof -
  have rot: "composeMatrix2X3 (opt\<lparr>angle := Fin 0\<rparr>)
      = composeMatrix2X3_always_rotate (opt\<lparr>angle := Fin 0\<rparr>)"
    by (cases "translateX opt"; cases "translateY opt")
       (simp_all add: composeMatrix2X3_def composeMatrix2X3_always_rotate_def Let_def
          truthy_def calcRotateMatrix2X3_def getIdentityMatrix2X3_def multiplyMatrix2X3_def
          or_zero_def)
  have dim: "composeMatrix2X3
       \<lparr>angle = Fin th, scaleX = Fin 1, scaleY = Fin 1, skewX = Fin 0, skewY = Fin 0,
        translateX = tx, translateY = ty, flipX = False, flipY = False\<rparr>
     = composeMatrix2X3_always_dimensions
       \<lparr>angle = Fin th, scaleX = Fin 1, scaleY = Fin 1, skewX = Fin 0, skewY = Fin 0,
        translateX = tx, translateY = ty, flipX = False, flipY = False\<rparr>"
    by (cases tx; cases ty)
       (simp_all add: composeMatrix2X3_def composeMatrix2X3_always_dimensions_def Let_def
          truthy_def strict_neq_def calcRotateMatrix2X3_def calcDimensionsMatrix2X3_def
          multiplyMatrix2X3_def or_zero_def)
  show ?thesis using rot dim by simp
qed

section \<open>The prune decision of \<open>collide\<close>\<close>

text \<open>
  Claim C3. For a node \<open>(cx, cy)\<close> of radius \<open>rad\<close> and a query rectangle with lower
  corner \<open>(x1, y1)\<close> and upper corner \<open>(x2, y2)\<close>, the function returned by
  \<open>collide(node)\<close> returns true exactly when the rectangle has no point in common with
  the padded square \<open>[cx - r, cx + r] \<times> [cy - r, cy + r]\<close>, \<open>r = rad + 16\<close>, whatever
  the quad and the store at the call. In particular, for a node at \<open>(0, 0)\<close> of radius
  \<open>0\<close> and a rectangle with \<open>16 < x1\<close>, it returns true. A rectangle has
  \<open>x1 \<le> x2\<close> and \<open>y1 \<le> y2\<close>, and the padded square is not empty (\<open>0 \<le> r\<close>, as for
  every radius that is not negative).
\<close>

theorem prune_iff_outside_padded_square:
  assumes hn: "h node = node_of cx cy rad"
    and r: "0 \<le> rad + 16"
    and x: "x1 \<le> x2" and y: "y1 \<le> y2"
  shows "fst (call (collide h node) quad (Fin x1) (Fin y1) (Fin x2) (Fin y2) h') =
           (region x1 y1 x2 y2 \<inter>
            region (cx - (rad + 16)) (cy - (rad + 16)) (cx + (rad + 16)) (cy + (rad + 16))
            = {})
         \<and> (cx = 0 \<and> cy = 0 \<and> rad = 0 \<and> 16 < x1 \<longrightarrow>
              fst (call (collide h node) quad (Fin x1) (Fin y1) (Fin x2) (Fin y2) h'))"
proof -
  have dec: "fst (call (collide h node) quad (Fin x1) (Fin y1) (Fin x2) (Fin y2) h') =
      (cx + (rad + 16) < x1 \<or> x2 < cx - (rad + 16) \<or>
       cy + (rad + 16) < y1 \<or> y2 < cy - (rad + 16))"
    by (simp add: call_def collide_def Let_def hn node_of_def)
  have "region x1 y1 x2 y2 \<inter>
      region (cx - (rad + 16)) (cy - (rad + 16)) (cx + (rad + 16)) (cy + (rad + 16)) =
      {max x1 (cx - (rad + 16)) .. min x2 (cx + (rad + 16))} \<times>
      {max y1 (cy - (rad + 16)) .. min y2 (cy + (rad + 16))}"
    by (auto simp: region_def)
  then have iff: "fst (call (collide h node) quad (Fin x1) (Fin y1) (Fin x2) (Fin y2) h') =
      (region x1 y1 x2 y2 \<inter>
       region (cx - (rad + 16)) (cy - (rad + 16)) (cx + (rad + 16)) (cy + (rad + 16)) = {})"
    using r x y unfolding dec by (auto simp: Sigma_empty_iff)
  have beyond: "cx = 0 \<and> cy = 0 \<and> rad = 0 \<and> 16 < x1 \<longrightarrow>
      fst (call (collide h node) quad (Fin x1) (Fin y1) (Fin x2) (Fin y2) h')"
    unfolding dec by simp
  show ?thesis
    using iff beyond by (rule conjI)
qed

text \<open>
  The claim at the node \<open>(0, 0)\<close> of radius \<open>0\<close> and the rectangle
  \<open>[17, 20] \<times> [0, 5]\<close>, which lies beyond \<open>x = 16\<close>: the region is pruned.
\<close>

theorem prune_iff_outside_padded_square_witness:
  "two_nodes (node_of 0 0 0) (node_of 1 1 1) 0 = node_of 0 0 0
   \<and> (0::real) \<le> 0 + 16 \<and> (17::real) \<le> 20 \<and> (0::real) \<le> 5
   \<and> fst (call (collide (two_nodes (node_of 0 0 0) (node_of 1 1 1)) 0) \<lparr>point = None\<rparr>
        (Fin 17) (Fin 0) (Fin 20) (Fin 5) (two_nodes (node_of 0 0 0) (node_of 1 1 1)))
   \<and> region 17 0 20 5 \<inter> region (0 - (0 + 16)) (0 - (0 + 16)) (0 + (0 + 16)) (0 + (0 + 16))
       = {}"
  using prune_iff_outside_padded_square
    [of "two_nodes (node_of 0 0 0) (node_of 1 1 1)" 0 0 0 0 17 20 0 5 "\<lparr>point = None\<rparr>"
        "two_nodes (node_of 0 0 0) (node_of 1 1 1)"]
  by (auto simp: two_nodes_def)

text \<open>
  Claim C10. The boolean returned by the function that \<open>collide(node)\<close> returns depends
  only on the arguments \<open>x1, y1, x2, y2\<close> and on the fields of \<open>node\<close> when \<open>collide\<close>
  ran: two closures made from nodes with the same \<open>x\<close>, \<open>y\<close> and \<open>radius\<close> decide alike,
  whatever the quads and whatever the stores at the calls, so no later write to the
  node (those of earlier calls of the closure included) changes the decision.
\<close>

theorem prune_decision_fixed_at_creation:
  assumes "h node = h0 node0"
  shows "fst (call (collide h node) quad x1 y1 x2 y2 ha)
           = fst (call (collide h0 node0) quad0 x1 y1 x2 y2 hb)
         \<and> fst (call (collide h node) quad x1 y1 x2 y2
                  (snd (call (collide h node) quad0 u1 v1 u2 v2 h)))
           = fst (call (collide h node) quad x1 y1 x2 y2 h)"
  using assms by (simp add: call_def collide_def Let_def)

text \<open>
  The claim at two stores that agree on the node at reference \<open>0\<close>, the second call
  being made on the store that the first call has written to.
\<close>

theorem prune_decision_fixed_at_creation_witness:
  "two_nodes (node_of 0 0 10) (node_of 15 0 10) 0 = two_nodes (node_of 0 0 10) (node_of 1 1 1) 0
   \<and> fst (call (collide (two_nodes (node_of 0 0 10) (node_of 15 0 10)) 0) \<lparr>point = Some 1\<rparr>
          (Fin 20) (Fin 0) (Fin 30) (Fin 5) (two_nodes (node_of 0 0 10) (node_of 15 0 10)))
     = fst (call (collide (two_nodes (node_of 0 0 10) (node_of 1 1 1)) 0) \<lparr>point = None\<rparr>
          (Fin 20) (Fin 0) (Fin 30) (Fin 5) (two_nodes (node_of 7 7 7) (node_of 1 1 1)))
   \<and> fst (call (collide (two_nodes (node_of 0 0 10) (node_of 15 0 10)) 0) \<lparr>point = Some 1\<rparr>
          (Fin 20) (Fin 0) (Fin 30) (Fin 5)
          (snd (call (collide (two_nodes (node_of 0 0 10) (node_of 15 0 10)) 0)
                  \<lparr>point = Some 1\<rparr> (Fin 0) (Fin 0) (Fin 1) (Fin 1)
                  (two_nodes (node_of 0 0 10) (node_of 15 0 10)))))
     = fst (call (collide (two_nodes (node_of 0 0 10) (node_of 15 0 10)) 0) \<lparr>point = Some 1\<rparr>
          (Fin 20) (Fin 0) (Fin 30) (Fin 5) (two_nodes (node_of 0 0 10) (node_of 15 0 10)))"
proof -
  have same: "two_nodes (node_of 0 0 10) (node_of 15 0 10) 0
      = two_nodes (node_of 0 0 10) (node_of 1 1 1) 0"
    by (simp add: two_nodes_def)
  show ?thesis
    using same
      prune_decision_fixed_at_creation
        [where h = "two_nodes (node_of 0 0 10) (node_of 15 0 10)" and node = 0
           and ?h0.0 = "two_nodes (node_of 0 0 10) (node_of 1 1 1)" and ?node0.0 = 0
           and quad = "\<lparr>point = Some 1\<rparr>" and ?quad0.0 = "\<lparr>point = None\<rparr>"
           and ?x1.0 = "Fin 20" and ?y1.0 = "Fin 0" and ?x2.0 = "Fin 30" and ?y2.0 = "Fin 5"
           and ha = "two_nodes (node_of 0 0 10) (node_of 15 0 10)"
           and hb = "two_nodes (node_of 7 7 7) (node_of 1 1 1)"]
      prune_decision_fixed_at_creation
        [where h = "two_nodes (node_of 0 0 10) (node_of 15 0 10)" and node = 0
           and ?h0.0 = "two_nodes (node_of 0 0 10) (node_of 15 0 10)" and ?node0.0 = 0
           and quad = "\<lparr>point = Some 1\<rparr>" and ?quad0.0 = "\<lparr>point = Some 1\<rparr>"
           and ?x1.0 = "Fin 20" and ?y1.0 = "Fin 0" and ?x2.0 = "Fin 30" and ?y2.0 = "Fin 5"
           and ?u1.0 = "Fin 0" and ?v1.0 = "Fin 0" and ?u2.0 = "Fin 1" and ?v2.0 = "Fin 1"]
    by blast
qed

section \<open>The separation step of \<open>collide\<close>\<close>

text \<open>
  The store after a call on an overlapping pair of different nodes with finite fields
  and centres at distance \<open>l > 0\<close>.
\<close>

lemma call_overlap:
  assumes hn: "h node = node_of ax ay ra"
    and ho: "h other = node_of ox oy rb"
    and ne: "other \<noteq> node"
    and l: "l = dist2 ax ay ox oy"
    and pos: "0 < l"
    and lt: "l < ra + rb"
    and k: "k = (l - (ra + rb)) / l * 0.5"
  shows "snd (call (collide h0 node) \<lparr>point = Some other\<rparr> x1 y1 x2 y2 h) =
     h(node := node_of (ax - (ax - ox) * k) (ay - (ay - oy) * k) ra,
       other := node_of (ox + (ax - ox) * k) (oy + (ay - oy) * k) rb)"
proof -
  have sq: "sqrt ((ax - ox) * (ax - ox) + (ay - oy) * (ay - oy)) = l"
    by (simp add: l dist2_def)
  have nz: "l \<noteq> 0" using pos by simp
  have nn: "\<not> (ax - ox) * (ax - ox) + (ay - oy) * (ay - oy) < 0"
    by (simp add: not_less)
  show ?thesis
    using ne nz lt
    by (simp add: call_def collide_def Let_def hn ho node_of_def sq k nn)
qed

text \<open>The length of a scaled vector, and the distances after the separation step.\<close>

lemma scaled_norm:
  fixes x y c :: real
  shows "sqrt ((x * c) * (x * c) + (y * c) * (y * c)) = \<bar>c\<bar> * sqrt (x * x + y * y)"
proof -
  have "(x * c) * (x * c) + (y * c) * (y * c) = (c * c) * (x * x + y * y)"
    by (simp add: algebra_simps)
  then show ?thesis
    by (simp add: real_sqrt_mult)
qed

lemma dist2_scaled:
  assumes "px - qx = x * c" and "py - qy = y * c"
  shows "dist2 px py qx qy = \<bar>c\<bar> * sqrt (x * x + y * y)"
  unfolding dist2_def assms by (rule scaled_norm)

lemma separation_geometry:
  fixes ax ay ox oy ra rb l k :: real
  assumes l: "l = dist2 ax ay ox oy"
    and pos: "0 < l"
    and lt: "l < ra + rb"
    and k: "k = (l - (ra + rb)) / l * 0.5"
  shows "dist2 (ax - (ax - ox) * k) (ay - (ay - oy) * k)
               (ox + (ax - ox) * k) (oy + (ay - oy) * k) = ra + rb"
    and "dist2 (ax - (ax - ox) * k) (ay - (ay - oy) * k) ax ay = (ra + rb - l) / 2"
    and "dist2 (ox + (ax - ox) * k) (oy + (ay - oy) * k) ox oy = (ra + rb - l) / 2"
proof -
  have l2: "sqrt ((ax - ox) * (ax - ox) + (ay - oy) * (ay - oy)) = l"
    by (simp add: l dist2_def)
  have f: "1 - 2 * k = (ra + rb) / l"
    using pos by (simp add: k field_simps)
  have "(ax - (ax - ox) * k) - (ox + (ax - ox) * k) = (ax - ox) * (1 - 2 * k)"
       "(ay - (ay - oy) * k) - (oy + (ay - oy) * k) = (ay - oy) * (1 - 2 * k)"
    by (simp_all add: algebra_simps)
  then have "dist2 (ax - (ax - ox) * k) (ay - (ay - oy) * k)
                   (ox + (ax - ox) * k) (oy + (ay - oy) * k) = \<bar>1 - 2 * k\<bar> * l"
    by (simp only: dist2_scaled l2)
  also have "\<dots> = ra + rb"
    using pos lt by (simp add: f)
  finally show "dist2 (ax - (ax - ox) * k) (ay - (ay - oy) * k)
                      (ox + (ax - ox) * k) (oy + (ay - oy) * k) = ra + rb" .
  have kl: "\<bar>k\<bar> * l = (ra + rb - l) / 2"
    using pos lt by (simp add: k abs_if field_simps)
  have "(ax - (ax - ox) * k) - ax = (ax - ox) * (- k)"
       "(ay - (ay - oy) * k) - ay = (ay - oy) * (- k)"
    by (simp_all add: algebra_simps)
  then have "dist2 (ax - (ax - ox) * k) (ay - (ay - oy) * k) ax ay = \<bar>- k\<bar> * l"
    by (simp only: dist2_scaled l2)
  then show "dist2 (ax - (ax - ox) * k) (ay - (ay - oy) * k) ax ay = (ra + rb - l) / 2"
    using kl by simp
  have "(ox + (ax - ox) * k) - ox = (ax - ox) * k"
       "(oy + (ay - oy) * k) - oy = (ay - oy) * k"
    by (simp_all add: algebra_simps)
  then have "dist2 (ox + (ax - ox) * k) (oy + (ay - oy) * k) ox oy = \<bar>k\<bar> * l"
    by (simp only: dist2_scaled l2)
  then show "dist2 (ox + (ax - ox) * k) (oy + (ay - oy) * k) ox oy = (ra + rb - l) / 2"
    using kl by simp
qed

lemma dist2_15: "dist2 0 0 15 0 = 15"
proof -
  have "sqrt ((15::real) * 15) = 15" by (simp only: real_sqrt_abs2)
  then show ?thesis by (simp add: dist2_def)
qed

lemma dist2_5: "dist2 0 0 3 4 = 5"
proof -
  have "sqrt ((5::real) * 5) = 5" by (simp only: real_sqrt_abs2)
  then show ?thesis by (simp add: dist2_def)
qed

text \<open>
  Claim C4. When the function returned by \<open>collide(node)\<close> is called with a quad that
  holds another node, both with finite fields, and the distance \<open>l\<close> of the centres
  satisfies \<open>0 < l < r\<close> with \<open>r = node.radius + other.radius\<close>, the centre difference
  \<open>(x, y)\<close> scaled by \<open>k = (l - r) / l * 0.5\<close> is subtracted from the centre of \<open>node\<close>
  and added to the centre of the other node: the two displacements are opposite, each
  has length \<open>(r - l) / 2\<close>, and the distance of the centres grows. The radii stay.
\<close>

theorem separation_is_symmetric:
  assumes hn: "h node = node_of ax ay ra"
    and ho: "h other = node_of ox oy rb"
    and ne: "other \<noteq> node"
    and pos: "0 < dist2 ax ay ox oy"
    and lt: "dist2 ax ay ox oy < ra + rb"
  shows "let l = dist2 ax ay ox oy;
             k = (l - (ra + rb)) / l * 0.5;
             ux = (ax - ox) * k;
             uy = (ay - oy) * k;
             h' = snd (call (collide h0 node) \<lparr>point = Some other\<rparr> x1 y1 x2 y2 h)
         in h' node = node_of (ax - ux) (ay - uy) ra
            \<and> h' other = node_of (ox + ux) (oy + uy) rb
            \<and> dist2 (ax - ux) (ay - uy) ax ay = (ra + rb - l) / 2
            \<and> dist2 (ox + ux) (oy + uy) ox oy = (ra + rb - l) / 2
            \<and> l < dist2 (ax - ux) (ay - uy) (ox + ux) (oy + uy)"
proof -
  define l where "l = dist2 ax ay ox oy"
  define k where "k = (l - (ra + rb)) / l * 0.5"
  have pos': "0 < l" and lt': "l < ra + rb"
    using pos lt by (simp_all add: l_def)
  note st = call_overlap [OF hn ho ne l_def pos' lt' k_def, of h0 x1 y1 x2 y2]
  note geo = separation_geometry [OF l_def pos' lt' k_def]
  have "snd (call (collide h0 node) \<lparr>point = Some other\<rparr> x1 y1 x2 y2 h) node
      = node_of (ax - (ax - ox) * k) (ay - (ay - oy) * k) ra"
    unfolding st using ne by simp
  moreover have "snd (call (collide h0 node) \<lparr>point = Some other\<rparr> x1 y1 x2 y2 h) other
      = node_of (ox + (ax - ox) * k) (oy + (ay - oy) * k) rb"
    unfolding st by simp
  moreover have "l < dist2 (ax - (ax - ox) * k) (ay - (ay - oy) * k)
                          (ox + (ax - ox) * k) (oy + (ay - oy) * k)"
    unfolding geo(1) by (rule lt')
  ultimately show ?thesis
    unfolding Let_def l_def [symmetric] k_def [symmetric] using geo(2,3) by simp
qed

text \<open>
  The claim at the circles \<open>(0, 0)\<close> and \<open>(15, 0)\<close> of radius \<open>10\<close>: the centres move
  to \<open>(-2.5, 0)\<close> and \<open>(17.5, 0)\<close>, each by \<open>2.5\<close> along the x-axis in opposite
  directions, and their distance grows from \<open>15\<close>.
\<close>

theorem separation_is_symmetric_witness:
  "two_nodes (node_of 0 0 10) (node_of 15 0 10) 0 = node_of 0 0 10
   \<and> two_nodes (node_of 0 0 10) (node_of 15 0 10) 1 = node_of 15 0 10
   \<and> (1::nat) \<noteq> 0
   \<and> 0 < dist2 0 0 15 0 \<and> dist2 0 0 15 0 < 10 + 10
   \<and> snd (call (collide (two_nodes (node_of 0 0 10) (node_of 15 0 10)) 0) \<lparr>point = Some 1\<rparr>
        (Fin 0) (Fin 0) (Fin 1) (Fin 1) (two_nodes (node_of 0 0 10) (node_of 15 0 10))) 0
       = node_of (- (5 / 2)) 0 10
   \<and> snd (call (collide (two_nodes (node_of 0 0 10) (node_of 15 0 10)) 0) \<lparr>point = Some 1\<rparr>
        (Fin 0) (Fin 0) (Fin 1) (Fin 1) (two_nodes (node_of 0 0 10) (node_of 15 0 10))) 1
       = node_of (35 / 2) 0 10
   \<and> 15 < dist2 (- (5 / 2)) 0 (35 / 2) 0"
  using separation_is_symmetric
    [where h = "two_nodes (node_of 0 0 10) (node_of 15 0 10)" and node = 0 and other = 1
       and ax = 0 and ay = 0 and ra = 10 and ox = 15 and oy = 0 and rb = 10
       and ?h0.0 = "two_nodes (node_of 0 0 10) (node_of 15 0 10)"
       and ?x1.0 = "Fin 0" and ?y1.0 = "Fin 0" and ?x2.0 = "Fin 1" and ?y2.0 = "Fin 1"]
  by (simp add: dist2_15 two_nodes_def Let_def)

text \<open>
  Claim C9. In exact arithmetic, one call on an overlapping pair with \<open>0 < l < r\<close>,
  \<open>r = node.radius + other.radius\<close>, leaves the two centres at distance exactly \<open>r\<close>
  and keeps their midpoint.
\<close>

theorem separation_resolves_overlap:
  assumes hn: "h node = node_of ax ay ra"
    and ho: "h other = node_of ox oy rb"
    and ne: "other \<noteq> node"
    and pos: "0 < dist2 ax ay ox oy"
    and lt: "dist2 ax ay ox oy < ra + rb"
  shows "\<exists>ax' ay' ox' oy'.
           snd (call (collide h0 node) \<lparr>point = Some other\<rparr> x1 y1 x2 y2 h) node
             = node_of ax' ay' ra
         \<and> snd (call (collide h0 node) \<lparr>point = Some other\<rparr> x1 y1 x2 y2 h) other
             = node_of ox' oy' rb
         \<and> dist2 ax' ay' ox' oy' = ra + rb
         \<and> (ax' + ox') / 2 = (ax + ox) / 2
         \<and> (ay' + oy') / 2 = (ay + oy) / 2"
proof -
  define l where "l = dist2 ax ay ox oy"
  define k where "k = (l - (ra + rb)) / l * 0.5"
  have pos': "0 < l" and lt': "l < ra + rb"
    using pos lt by (simp_all add: l_def)
  note st = call_overlap [OF hn ho ne l_def pos' lt' k_def, of h0 x1 y1 x2 y2]
  note geo = separation_geometry [OF l_def pos' lt' k_def]
  have a: "snd (call (collide h0 node) \<lparr>point = Some other\<rparr> x1 y1 x2 y2 h) node
      = node_of (ax - (ax - ox) * k) (ay - (ay - oy) * k) ra"
    unfolding st using ne by simp
  have b: "snd (call (collide h0 node) \<lparr>point = Some other\<rparr> x1 y1 x2 y2 h) other
      = node_of (ox + (ax - ox) * k) (oy + (ay - oy) * k) rb"
    unfolding st by simp
  have mx: "((ax - (ax - ox) * k) + (ox + (ax - ox) * k)) / 2 = (ax + ox) / 2"
    by simp
  have my: "((ay - (ay - oy) * k) + (oy + (ay - oy) * k)) / 2 = (ay + oy) / 2"
    by simp
  show ?thesis
    using a b geo(1) mx my by blast
qed

text \<open>
  The claim at the circles \<open>(0, 0)\<close> of radius \<open>3\<close> and \<open>(3, 4)\<close> of radius \<open>4\<close>, at
  distance \<open>5 < 7\<close>.
\<close>

theorem separation_resolves_overlap_witness:
  "two_nodes (node_of 0 0 3) (node_of 3 4 4) 0 = node_of 0 0 3
   \<and> two_nodes (node_of 0 0 3) (node_of 3 4 4) 1 = node_of 3 4 4
   \<and> (1::nat) \<noteq> 0
   \<and> 0 < dist2 0 0 3 4 \<and> dist2 0 0 3 4 < 3 + 4
   \<and> (\<exists>ax' ay' ox' oy'.
         snd (call (collide (two_nodes (node_of 0 0 3) (node_of 3 4 4)) 0) \<lparr>point = Some 1\<rparr>
           (Fin 0) (Fin 0) (Fin 1) (Fin 1) (two_nodes (node_of 0 0 3) (node_of 3 4 4))) 0
          = node_of ax' ay' 3
       \<and> snd (call (collide (two_nodes (node_of 0 0 3) (node_of 3 4 4)) 0) \<lparr>point = Some 1\<rparr>
           (Fin 0) (Fin 0) (Fin 1) (Fin 1) (two_nodes (node_of 0 0 3) (node_of 3 4 4))) 1
          = node_of ox' oy' 4
       \<and> dist2 ax' ay' ox' oy' = 3 + 4
       \<and> (ax' + ox') / 2 = (0 + 3) / 2
       \<and> (ay' + oy') / 2 = (0 + 4) / 2)"
proof -
  have hyps: "two_nodes (node_of 0 0 3) (node_of 3 4 4) 0 = node_of 0 0 3"
    "two_nodes (node_of 0 0 3) (node_of 3 4 4) 1 = node_of 3 4 4"
    "(1::nat) \<noteq> 0" "0 < dist2 0 0 3 4" "dist2 0 0 3 4 < 3 + 4"
    by (simp_all add: two_nodes_def dist2_5)
  show ?thesis
    using hyps separation_resolves_overlap [OF hyps,
      of "two_nodes (node_of 0 0 3) (node_of 3 4 4)" "Fin 0" "Fin 0" "Fin 1" "Fin 1"]
    by blast
qed

section \<open>Coincident centres\<close>

text \<open>
  Claim C2, as the code has it. When the function returned by \<open>collide(node)\<close> is called
  with another node whose centre is the centre of \<open>node\<close>, both with finite fields, and
  the radii sum to more than \<open>0\<close> (the circles overlap), the separation step divides by
  \<open>l = 0\<close>: \<open>(l - r) / l\<close> is \<open>-Infinity\<close>, the offsets \<open>0 * -Infinity\<close> are NaN, and the
  fields \<open>x\<close> and \<open>y\<close> of both nodes become NaN. No tie-break is applied; the radii stay.
\<close>

theorem coincident_centres_become_nan:
  assumes hn: "h node = node_of cx cy ra"
    and ho: "h other = node_of cx cy rb"
    and ne: "other \<noteq> node"
    and ov: "0 < ra + rb"
  shows "snd (call (collide h0 node) \<lparr>point = Some other\<rparr> x1 y1 x2 y2 h) =
     h(node := \<lparr>c_x = NaN, c_y = NaN, radius = Fin ra\<rparr>,
       other := \<lparr>c_x = NaN, c_y = NaN, radius = Fin rb\<rparr>)"
  using ne ov
  by (simp add: call_def collide_def Let_def hn ho node_of_def minus_number_def)

text \<open>The amended claim at two circles of radii \<open>1\<close> and \<open>2\<close> centred at \<open>(3, 4)\<close>.\<close>

theorem coincident_centres_become_nan_witness:
  "two_nodes (node_of 3 4 1) (node_of 3 4 2) 0 = node_of 3 4 1
   \<and> two_nodes (node_of 3 4 1) (node_of 3 4 2) 1 = node_of 3 4 2
   \<and> (1::nat) \<noteq> 0 \<and> (0::real) < 1 + 2
   \<and> snd (call (collide (two_nodes (node_of 3 4 1) (node_of 3 4 2)) 0) \<lparr>point = Some 1\<rparr>
        (Fin 0) (Fin 0) (Fin 1) (Fin 1) (two_nodes (node_of 3 4 1) (node_of 3 4 2)))
     = (two_nodes (node_of 3 4 1) (node_of 3 4 2))
         (0 := \<lparr>c_x = NaN, c_y = NaN, radius = Fin 1\<rparr>,
          1 := \<lparr>c_x = NaN, c_y = NaN, radius = Fin 2\<rparr>)"
proof -
  have hyps: "two_nodes (node_of 3 4 1) (node_of 3 4 2) 0 = node_of 3 4 1"
    "two_nodes (node_of 3 4 1) (node_of 3 4 2) 1 = node_of 3 4 2"
    "(1::nat) \<noteq> 0" "(0::real) < 1 + 2"
    by (simp_all add: two_nodes_def)
  show ?thesis
    using hyps coincident_centres_become_nan [OF hyps,
      of "two_nodes (node_of 3 4 1) (node_of 3 4 2)" "Fin 0" "Fin 0" "Fin 1" "Fin 1"]
    by blast
qed

text \<open>
  Claim C2 as stated fails: for two different nodes at \<open>(0, 0)\<close> of radius \<open>10\<close>, one
  call leaves NaN in \<open>x\<close> and \<open>y\<close> of both nodes.
\<close>

theorem coincident_centres_counterexample:
  "two_nodes (node_of 0 0 10) (node_of 0 0 10) 0 = node_of 0 0 10
   \<and> two_nodes (node_of 0 0 10) (node_of 0 0 10) 1 = node_of 0 0 10
   \<and> c_x (snd (call (collide (two_nodes (node_of 0 0 10) (node_of 0 0 10)) 0)
              \<lparr>point = Some 1\<rparr> (Fin 0) (Fin 0) (Fin 1) (Fin 1)
              (two_nodes (node_of 0 0 10) (node_of 0 0 10))) 0) = NaN
   \<and> c_y (snd (call (collide (two_nodes (node_of 0 0 10) (node_of 0 0 10)) 0)
              \<lparr>point = Some 1\<rparr> (Fin 0) (Fin 0) (Fin 1) (Fin 1)
              (two_nodes (node_of 0 0 10) (node_of 0 0 10))) 0) = NaN
   \<and> c_x (snd (call (collide (two_nodes (node_of 0 0 10) (node_of 0 0 10)) 0)
              \<lparr>point = Some 1\<rparr> (Fin 0) (Fin 0) (Fin 1) (Fin 1)
              (two_nodes (node_of 0 0 10) (node_of 0 0 10))) 1) = NaN
   \<and> c_y (snd (call (collide (two_nodes (node_of 0 0 10) (node_of 0 0 10)) 0)
              \<lparr>point = Some 1\<rparr> (Fin 0) (Fin 0) (Fin 1) (Fin 1)
              (two_nodes (node_of 0 0 10) (node_of 0 0 10))) 1) = NaN"
  by (simp add: call_def collide_def Let_def two_nodes_def node_of_def minus_number_def)

section \<open>Composition followed by decomposition\<close>

text \<open>
  The matrix that \<open>composeMatrix2X3\<close> builds from finite parameters with \<open>skewY = 0\<close>
  and a non-zero angle, on every path through its two guards.
\<close>

lemma compose_finite:
  assumes "th \<noteq> 0"
  shows "composeMatrix2X3 (option_of th sx sy kx 0 tx ty fx fy) =
     matrix_of (cos th * (if fx then - sx else sx))
               (sin th * (if fx then - sx else sx))
               (cos th * ((if fx then - sx else sx) * tan kx) - sin th * (if fy then - sy else sy))
               (sin th * ((if fx then - sx else sx) * tan kx) + cos th * (if fy then - sy else sy))
               tx ty"
  using assms
  by (simp add: composeMatrix2X3_def option_of_def matrix_of_def Let_def truthy_def or_zero_def
      strict_neq_def calcRotateMatrix2X3_def calcDimensionsMatrix2X3_def multiplyMatrix2X3_def)

text \<open>The sine of the two-argument arctangent, away from the origin.\<close>

lemma sin_atan2:
  assumes "a \<noteq> 0 \<or> b \<noteq> 0"
  shows "sin (atan2 b a) = b / sqrt (a * a + b * b)"
proof -
  have pos: "0 < a * a + b * b"
    using assms by (metis add_pos_nonneg add_nonneg_pos zero_le_square not_real_square_gt_zero)
  have base: "sin (arctan (b / a)) = b / a / (sqrt (a * a + b * b) / \<bar>a\<bar>)" if "a \<noteq> 0"
  proof -
    have "1 + (b / a)\<^sup>2 = (a * a + b * b) / (a * a)"
      using that by (simp add: power2_eq_square field_simps)
    then have "sqrt (1 + (b / a)\<^sup>2) = sqrt (a * a + b * b) / \<bar>a\<bar>"
      by (simp add: real_sqrt_divide)
    then show ?thesis by (simp add: sin_arctan)
  qed
  consider "0 < a" | "a < 0" "0 \<le> b" | "a < 0" "b < 0" | "a = 0" "0 < b" | "a = 0" "b < 0"
    using assms by linarith
  then show ?thesis
  proof cases
    case 1
    then show ?thesis using base [of] by (simp add: atan2_def)
  next
    case 2
    then show ?thesis using base by (simp add: atan2_def)
  next
    case 3
    then show ?thesis using base by (simp add: atan2_def)
  next
    case 4
    then show ?thesis by (simp add: atan2_def)
  next
    case 5
    then show ?thesis by (simp add: atan2_def)
  qed
qed

lemma cos_neg_upper: "pi / 2 < th \<Longrightarrow> th \<le> pi \<Longrightarrow> cos th < 0"
  by (metis cos_pi_half pi_half_ge_zero cos_monotone_0_pi)

lemma cos_neg_lower: "- pi < th \<Longrightarrow> th < - (pi / 2) \<Longrightarrow> cos th < 0"
  using cos_neg_upper [of "- th"] by simp

lemma sin_neg_lower: "- pi < th \<Longrightarrow> th < 0 \<Longrightarrow> sin th < 0"
  using sin_gt_zero [of "- th"] by simp

text \<open>The two-argument arctangent recovers an angle of \<open>(-\<pi>, \<pi>]\<close> from a positive multiple
  of its cosine and sine.\<close>

lemma atan2_polar:
  assumes s: "0 < s" and lo: "- pi < th" and hi: "th \<le> pi"
  shows "atan2 (sin th * s) (cos th * s) = th"
proof -
  have q: "sin th * s / (cos th * s) = tan th"
    using s by (simp add: tan_def)
  consider "- (pi / 2) < th" "th < pi / 2" | "th = pi / 2" | "th = - (pi / 2)"
    | "pi / 2 < th" | "th < - (pi / 2)"
    by linarith
  then show ?thesis
  proof cases
    case 1
    then have "0 < cos th" by (simp add: cos_gt_zero_pi)
    then have "0 < cos th * s" using s by simp
    then show ?thesis
      using 1 by (simp add: atan2_def q arctan_tan)
  next
    case 2
    have "atan2 (sin (pi / 2) * s) (cos (pi / 2) * s) = pi / 2"
      using s by (simp add: atan2_def)
    then show ?thesis unfolding 2 .
  next
    case 3
    have "atan2 (sin (- (pi / 2)) * s) (cos (- (pi / 2)) * s) = - (pi / 2)"
      using s by (simp add: atan2_def)
    then show ?thesis unfolding 3 .
  next
    case 4
    then have c: "cos th * s < 0"
      using cos_neg_upper [OF 4 hi] s by (simp add: mult_neg_pos)
    have "0 \<le> sin th" using 4 hi sin_ge_zero [of th] by simp
    then have sn: "0 \<le> sin th * s" using s by simp
    have "tan th = tan (th - pi)"
      by (metis tan_periodic_pi diff_add_cancel)
    moreover have "arctan (tan (th - pi)) = th - pi"
      using 4 hi by (simp add: arctan_tan)
    ultimately show ?thesis
      using c sn by (simp add: atan2_def q)
  next
    case 5
    then have c: "cos th * s < 0"
      using cos_neg_lower [OF lo 5] s by (simp add: mult_neg_pos)
    have "sin th < 0" using 5 lo sin_neg_lower [of th] by simp
    then have sn: "sin th * s < 0" using s by (simp add: mult_neg_pos)
    have "tan th = tan (th + pi)" by simp
    moreover have "arctan (tan (th + pi)) = th + pi"
      by (rule arctan_tan) (use 5 lo in linarith)+
    ultimately show ?thesis
      using c sn by (simp add: atan2_def q)
  qed
qed

text \<open>
  What \<open>decomposeMatrix2X3\<close> returns on a matrix of real numbers with \<open>a[1] \<noteq> 0\<close>:
  the computed \<open>scaleX\<close> is \<open>sqrt(a[0]^2 + a[1]^2)\<close>, which is positive, so \<open>flipX\<close>
  is false.
\<close>

lemma decompose_finite:
  assumes "a1 \<noteq> 0"
  shows "decomposeMatrix2X3 (matrix_of a0 a1 a2 a3 a4 a5) =
     \<lparr>angle = Fin (atan2 a1 a0),
      scaleX = Fin (sqrt (a0 * a0 + a1 * a1)),
      scaleY = Fin (\<bar>a0 * a3 - a2 * a1\<bar> / sqrt (a0 * a0 + a1 * a1)),
      skewX = Fin (arctan ((a0 * a2 + a1 * a3) / (a0 * a0 + a1 * a1))),
      skewY = Fin 0,
      translateX = Fin a4,
      translateY = Fin a5,
      flipX = False,
      flipY = (a0 * a3 - a2 * a1 \<le> 0)\<rparr>"
proof -
  define n where "n = sqrt (a0 * a0 + a1 * a1)"
  define d where "d = a0 * a3 - a2 * a1"
  have pos: "0 < a0 * a0 + a1 * a1"
    using assms by (metis add_nonneg_pos zero_le_square not_real_square_gt_zero)
  then have n: "0 < n" unfolding n_def by (rule real_sqrt_gt_zero)
  have sn: "sin (atan2 a1 a0) = a1 / n"
    using assms by (simp add: sin_atan2 n_def)
  have sx: "Fin a1 / Math_sin (Math_atan2 (Fin a1) (Fin a0)) = Fin n"
    using assms n by (simp add: sn)
  have sy: "(Fin a0 * Fin a3 - Fin a2 * Fin a1) / Fin n = Fin (d / n)"
    using n by (simp add: d_def)
  have pw: "Math_pow (Fin a0) 2 + Math_pow (Fin a1) 2 = Fin (a0 * a0 + a1 * a1)"
    by (simp add: numeral_2_eq_2)
  have k: "Math_atan2 (Fin a0 * Fin a2 + Fin a1 * Fin a3) (Fin (a0 * a0 + a1 * a1))
      = Fin (arctan ((a0 * a2 + a1 * a3) / (a0 * a0 + a1 * a1)))"
    using pos by (simp add: atan2_def)
  have ab: "\<bar>d / n\<bar> = \<bar>d\<bar> / n"
    using n by simp
  have fy: "(0 < d / n) = (\<not> d \<le> 0)"
    using n by (simp add: zero_less_divide_iff not_le)
  have "decomposeMatrix2X3 (matrix_of a0 a1 a2 a3 a4 a5) =
     \<lparr>angle = Fin (atan2 a1 a0), scaleX = Fin n, scaleY = Fin (\<bar>d\<bar> / n),
      skewX = Fin (arctan ((a0 * a2 + a1 * a3) / (a0 * a0 + a1 * a1))),
      skewY = Fin 0, translateX = Fin a4, translateY = Fin a5,
      flipX = False, flipY = (d \<le> 0)\<rparr>"
    unfolding decomposeMatrix2X3_def Let_def matrix_of_def Matrix2X3Array.simps pw sx sy k
    using n by (simp add: ab fy)
  then show ?thesis
    unfolding n_def d_def .
qed

text \<open>
  The round trip on finite parameters with \<open>skewY = 0\<close>; \<open>s\<close> and \<open>u\<close> are the signed
  scales \<open>flipX ? -scaleX : scaleX\<close> and \<open>flipY ? -scaleY : scaleY\<close>.
\<close>

lemma roundtrip_finite:
  assumes s: "s \<noteq> 0" and th: "sin th \<noteq> 0"
    and s_def: "s = (if fx then - sx else sx)"
    and u_def: "u = (if fy then - sy else sy)"
  shows "decomposeMatrix2X3 (composeMatrix2X3 (option_of th sx sy kx 0 tx ty fx fy)) =
     \<lparr>angle = Fin (atan2 (sin th * s) (cos th * s)),
      scaleX = Fin \<bar>sx\<bar>,
      scaleY = Fin \<bar>sy\<bar>,
      skewX = Fin (arctan (tan kx)),
      skewY = Fin 0,
      translateX = Fin tx,
      translateY = Fin ty,
      flipX = False,
      flipY = (s * u \<le> 0)\<rparr>"
proof -
  define t where "t = tan kx"
  define a0 where "a0 = cos th * s"
  define a1 where "a1 = sin th * s"
  define a2 where "a2 = cos th * (s * t) - sin th * u"
  define a3 where "a3 = sin th * (s * t) + cos th * u"
  have th0: "th \<noteq> 0" using th by auto
  have comp: "composeMatrix2X3 (option_of th sx sy kx 0 tx ty fx fy) = matrix_of a0 a1 a2 a3 tx ty"
    unfolding a0_def a1_def a2_def a3_def t_def s_def u_def by (rule compose_finite [OF th0])
  have a1nz: "a1 \<noteq> 0" using s th by (simp add: a1_def)
  have cs: "cos th * cos th + sin th * sin th = 1"
    using sin_cos_squared_add3 [of th] by (simp add: algebra_simps)
  have "a0 * a0 + a1 * a1 = (s * s) * (cos th * cos th + sin th * sin th)"
    unfolding a0_def a1_def by (simp only: algebra_simps)
  also have "\<dots> = s * s" by (simp only: cs mult_1_right)
  finally have nn: "a0 * a0 + a1 * a1 = s * s" .
  have "a0 * a3 - a2 * a1 = (s * u) * (cos th * cos th + sin th * sin th)"
    unfolding a0_def a1_def a2_def a3_def by (simp only: algebra_simps)
  also have "\<dots> = s * u" by (simp only: cs mult_1_right)
  finally have det: "a0 * a3 - a2 * a1 = s * u" .
  have "a0 * a2 + a1 * a3 = (s * s * t) * (cos th * cos th + sin th * sin th)"
    unfolding a0_def a1_def a2_def a3_def by (simp only: algebra_simps)
  also have "\<dots> = s * s * t" by (simp only: cs mult_1_right)
  finally have dot: "a0 * a2 + a1 * a3 = s * s * t" .
  have q: "s * s * t / (s * s) = t" using s by simp
  have sa: "\<bar>s\<bar> = \<bar>sx\<bar>" by (simp add: s_def)
  have ua: "\<bar>s * u\<bar> / \<bar>sx\<bar> = \<bar>sy\<bar>"
    using s by (cases fx; cases fy) (simp_all add: s_def u_def abs_mult)
  show ?thesis
    unfolding comp decompose_finite [OF a1nz] nn det dot q
    by (simp add: sa ua a0_def a1_def t_def)
qed

text \<open>
  Claim C1, as the code has it. For every finite \<open>TransformOptions o\<close> with
  \<open>skewY == 0\<close>, \<open>scaleX != 0\<close> and \<open>angle\<close> not an integer multiple of \<open>\<pi>\<close>,
  \<open>decomposeMatrix2X3(composeMatrix2X3(o))\<close> returns \<open>|scaleX|\<close>, \<open>|scaleY|\<close>,
  \<open>translateX\<close> and \<open>translateY\<close> of \<open>o\<close>, \<open>skewY = 0\<close> and \<open>flipX = false\<close>. It
  returns \<open>skewX\<close> of \<open>o\<close> when \<open>-\<pi>/2 < skewX < \<pi>/2\<close>; the angle of \<open>o\<close> when
  \<open>flipX\<close> is false, \<open>scaleX > 0\<close> and \<open>-\<pi> < angle < \<pi>\<close>; and \<open>flipY\<close> of \<open>o\<close> when
  \<open>flipX\<close> is false, \<open>scaleX > 0\<close> and \<open>scaleY > 0\<close>. Under all of these conditions
  the round trip returns \<open>o\<close> itself (equalities of exact arithmetic).
\<close>

theorem decompose_compose_roundtrip:
  assumes sx: "sx \<noteq> 0" and th: "\<not> multiple_of_pi th"
  shows "let r = decomposeMatrix2X3 (composeMatrix2X3 (option_of th sx sy kx 0 tx ty fx fy))
         in scaleX r = Fin \<bar>sx\<bar> \<and> scaleY r = Fin \<bar>sy\<bar>
          \<and> translateX r = Fin tx \<and> translateY r = Fin ty
          \<and> skewY r = Fin 0 \<and> flipX r = False
          \<and> (- (pi / 2) < kx \<and> kx < pi / 2 \<longrightarrow> skewX r = Fin kx)
          \<and> (\<not> fx \<and> 0 < sx \<and> - pi < th \<and> th < pi \<longrightarrow> angle r = Fin th)
          \<and> (\<not> fx \<and> 0 < sx \<and> 0 < sy \<longrightarrow> flipY r = fy)
          \<and> (\<not> fx \<and> 0 < sx \<and> 0 < sy \<and> - pi < th \<and> th < pi
                \<and> - (pi / 2) < kx \<and> kx < pi / 2 \<longrightarrow>
              r = option_of th sx sy kx 0 tx ty fx fy)"
proof -
  define s where "s = (if fx then - sx else sx)"
  define u where "u = (if fy then - sy else sy)"
  have s: "s \<noteq> 0" using sx by (simp add: s_def)
  have sn: "sin th \<noteq> 0" using th by (simp add: multiple_of_pi_iff)
  note R = roundtrip_finite [OF s sn s_def u_def, of kx tx ty]
  have k: "arctan (tan kx) = kx" if "- (pi / 2) < kx" "kx < pi / 2"
    using that by (rule arctan_tan)
  have a: "atan2 (sin th * s) (cos th * s) = th" if "\<not> fx" "0 < sx" "- pi < th" "th < pi"
    using that by (intro atan2_polar) (simp_all add: s_def)
  have f: "(s * u \<le> 0) = fy" if "\<not> fx" "0 < sx" "0 < sy"
    using that by (simp add: s_def u_def mult_le_0_iff)
  show ?thesis
    unfolding Let_def R using k a f by (simp add: option_of_def)
qed

text \<open>
  The amended claim at \<open>angle = \<pi>/2\<close>, \<open>scaleX = 2\<close>, \<open>scaleY = 3\<close>, \<open>skewX = \<pi>/4\<close>,
  \<open>translate = (5, 7)\<close>, \<open>flipX = false\<close>, \<open>flipY = true\<close>: the round trip returns
  the input.
\<close>

theorem decompose_compose_roundtrip_witness:
  "(2::real) \<noteq> 0 \<and> \<not> multiple_of_pi (pi / 2)
   \<and> decomposeMatrix2X3 (composeMatrix2X3 (option_of (pi / 2) 2 3 (pi / 4) 0 5 7 False True))
       = option_of (pi / 2) 2 3 (pi / 4) 0 5 7 False True"
proof -
  have hyps: "(2::real) \<noteq> 0" "\<not> multiple_of_pi (pi / 2)"
    by (simp_all add: multiple_of_pi_iff)
  show ?thesis
    using hyps decompose_compose_roundtrip [OF hyps, of 3 "pi / 4" 5 7 False True]
    by (simp add: Let_def)
qed

text \<open>
  Claim C1 as stated fails: \<open>angle = \<pi>/2\<close> (not a multiple of \<open>\<pi>\<close>), \<open>scaleX = 1\<close>,
  \<open>scaleY = 1\<close>, no skew, no translation, \<open>flipX = true\<close>, \<open>flipY = false\<close> composes
  to the matrix \<open>(0, -1, -1, 0, 0, 0)\<close>, which decomposes to \<open>angle = -\<pi>/2\<close>,
  \<open>flipX = false\<close>, \<open>flipY = true\<close>: neither the angle nor the flip flags are those
  of the input.
\<close>

theorem decompose_compose_counterexample:
  "\<not> multiple_of_pi (pi / 2)
   \<and> composeMatrix2X3 (option_of (pi / 2) 1 1 0 0 0 0 True False) = matrix_of 0 (- 1) (- 1) 0 0 0
   \<and> decomposeMatrix2X3 (composeMatrix2X3 (option_of (pi / 2) 1 1 0 0 0 0 True False))
       = option_of (- (pi / 2)) 1 1 0 0 0 0 False True
   \<and> flipX (decomposeMatrix2X3 (composeMatrix2X3 (option_of (pi / 2) 1 1 0 0 0 0 True False)))
       \<noteq> flipX (option_of (pi / 2) 1 1 0 0 0 0 True False)"
proof -
  have m: "composeMatrix2X3 (option_of (pi / 2) 1 1 0 0 0 0 True False)
      = matrix_of 0 (- 1) (- 1) 0 0 0"
    by (simp add: compose_finite)
  have d: "decomposeMatrix2X3 (composeMatrix2X3 (option_of (pi / 2) 1 1 0 0 0 0 True False))
     = option_of (- (pi / 2)) 1 1 0 0 0 0 False True"
    by (subst roundtrip_finite [where s = "- 1" and u = 1])
       (simp_all add: atan2_def option_of_def)
  show ?thesis
    unfolding d using m by (simp add: multiple_of_pi_iff option_of_def)
qed

subsection \<open>Why the side conditions are there\<close>

text \<open>
  A negative \<open>scaleY\<close> comes back as \<open>flipY\<close>; a negative \<open>scaleX\<close> comes back as a
  half turn of the angle together with \<open>flipY\<close>; an angle outside \<open>(-\<pi>, \<pi>]\<close> and a
  \<open>skewX\<close> outside \<open>(-\<pi>/2, \<pi>/2)\<close> come back reduced to those ranges.
\<close>

lemma negative_scaleY_is_returned_as_flipY:
  "decomposeMatrix2X3 (composeMatrix2X3 (option_of (pi / 2) 1 (- 1) 0 0 0 0 False False))
     = option_of (pi / 2) 1 1 0 0 0 0 False True"
  by (subst roundtrip_finite [where s = 1 and u = "- 1"])
     (simp_all add: atan2_def option_of_def)

lemma negative_scaleX_turns_the_angle:
  "decomposeMatrix2X3 (composeMatrix2X3 (option_of (pi / 2) (- 1) 1 0 0 0 0 False False))
     = option_of (- (pi / 2)) 1 1 0 0 0 0 False True"
  by (subst roundtrip_finite [where s = "- 1" and u = 1])
     (simp_all add: atan2_def option_of_def)

lemma angle_is_returned_in_principal_range:
  "decomposeMatrix2X3 (composeMatrix2X3 (option_of (3 * pi / 2) 1 1 0 0 0 0 False False))
     = option_of (- (pi / 2)) 1 1 0 0 0 0 False False"
proof -
  have e: "3 * pi / 2 = 3 / 2 * pi" by simp
  have s: "sin (3 * pi / 2) = - 1" unfolding e by (rule sin_3over2_pi)
  have c: "cos (3 * pi / 2) = 0" unfolding e by (rule cos_3over2_pi)
  show ?thesis
    by (subst roundtrip_finite [where s = 1 and u = 1])
       (simp_all add: atan2_def option_of_def s c)
qed

lemma skewX_is_returned_in_principal_range:
  "decomposeMatrix2X3 (composeMatrix2X3 (option_of (pi / 2) 1 1 pi 0 0 0 False False))
     = option_of (pi / 2) 1 1 0 0 0 0 False False"
  by (subst roundtrip_finite [where s = 1 and u = 1])
     (simp_all add: atan2_def option_of_def)

end
